theory Spec2Isabelle
  imports Main
begin

section \<open>Data model of \<^verbatim>\<open>src/main.ts\<close>\<close>

text \<open>
  The installer reads its configuration, looks the tool up in the runner's tool cache and,
  on a miss, downloads it, extracts it when it is an archive, and installs it either in
  the tool cache or, inside a container, in a fixed directory below the home directory.
  The types below are those of the TypeScript source; \<^verbatim>\<open>Arch\<close> and
  \<^verbatim>\<open>Platform\<close> are string unions declared in \<^verbatim>\<open>./inputs\<close>.
\<close>

type_synonym Arch = string
type_synonym Platform = string

datatype PkgExtension = TarGz | Zip | SevenZ | Xar

text \<open>
  \<^verbatim>\<open>type Extract = (archivePath, toDir) => Promise<string>\<close>: the only values the
  source ever stores are the four extraction functions of the tool-cache library, so the
  function type is modelled by their names.
\<close>

datatype Extract = extractTar | extractZip | extract7z | extractXar

fun getExtract :: "PkgExtension \<Rightarrow> Extract option" where
  "getExtract TarGz = Some extractTar"
| "getExtract Zip = Some extractZip"
| "getExtract SevenZ = Some extract7z"
| "getExtract Xar = Some extractXar"

record ToolConfig =
  name :: string
  version :: string
  arch :: Arch

record ArchiveConfig =
  url :: string
  subdir :: "string option"
  extract_op :: "Extract option"

record ReleaseConfig =
  tool :: ToolConfig
  archive :: ArchiveConfig
  githubToken :: "string option"

text \<open>
  JavaScript truthiness of a value of type \<^verbatim>\<open>string | null\<close>: \<^verbatim>\<open>null\<close> and the
  empty string are falsy.
\<close>

fun truthy :: "string option \<Rightarrow> bool" where
  "truthy None = False"
| "truthy (Some s) = (s \<noteq> [])"

section \<open>The world outside the program\<close>

text \<open>
  A thrown JavaScript value is an \<open>Error\<close> with its message. The result of
  \<^verbatim>\<open>github.findReleaseAsset\<close> is the object \<^verbatim>\<open>{url, auth, headers}\<close>.
\<close>

datatype error = Error string

type_synonym headers = "(string \<times> string) list"

record ReleaseAsset =
  asset_url :: string
  asset_auth :: "string option"
  asset_headers :: "headers option"

text \<open>
  Every call that leaves the program (tool-cache, file system, GitHub lookup, the
  runner's commands) is recorded with its arguments and with what it gave back.
  \<^verbatim>\<open>core.debug\<close>, \<^verbatim>\<open>core.info\<close> and the log lines of \<^verbatim>\<open>core.group\<close> only print and
  are left out; \<^verbatim>\<open>fs.existsSync\<close> and \<^verbatim>\<open>Math.random\<close> cannot fail and change nothing
  outside, so they are not recorded either.
\<close>

datatype call =
    FindReleaseAsset string string
  | MkdirSync string
  | DownloadTool string "string option" "string option" "headers option"
  | ChmodSync string string
  | CacheDir string string string Arch
  | RmSync string
  | ExtractCall Extract string string
  | CpSync string string
  | Find string string Arch
  | AddPath string
  | SetFailed error

datatype outcome = Threw error | Gave string | GaveAsset ReleaseAsset | Done

text \<open>
  The state: the paths that exist, the tool cache as a map from (name, version,
  architecture) to the cached directory, the record of calls in the order they were
  made, and the number of random strings drawn so far.
\<close>

record world =
  files :: "string list"
  cache :: "(string \<times> string \<times> Arch) \<rightharpoonup> string"
  trace :: "(call \<times> outcome) list"
  rng :: nat

text \<open>
  What \<^verbatim>\<open>getInputs\<close> of \<^verbatim>\<open>./inputs\<close> returns: the fields \<^verbatim>\<open>mkReleaseConfig\<close> reads.
\<close>

record Inputs =
  in_name :: string
  in_version :: string
  in_url :: string
  in_subdir :: "string option"
  in_os :: string
  in_arch :: string
  in_ext :: string
  in_noExtract :: bool
  in_githubToken :: "string option"

text \<open>
  The environment decides what the program cannot: the home directory, whether
  \<^verbatim>\<open>CONTAINER_ID\<close> is set, the random strings, which call throws (it may depend on the
  whole state, so on everything that happened before), and the values the libraries
  choose: the name of the temporary download, the directory an extractor returns, the
  directory the tool cache assigns, the asset a private release resolves to, and what
  the tool cache takes from the semver library: \<^verbatim>\<open>semver.clean\<close> (\<open>None\<close> for a string
  that is no semantic version) and the cached version that a version range selects. The
  functions \<^verbatim>\<open>getInputs\<close> and \<^verbatim>\<open>interpolate\<close> are imported by \<^verbatim>\<open>main.ts\<close> from
  modules that are not part of the sources at hand, so they are parameters too, with
  \<^verbatim>\<open>process.platform\<close> and \<^verbatim>\<open>process.arch\<close>.
\<close>

record env =
  homedir :: string
  CONTAINER_ID :: "string option"
  random_str :: "nat \<Rightarrow> string"
  throws :: "world \<Rightarrow> call \<Rightarrow> error option"
  temp_file :: "world \<Rightarrow> string"
  extracted_dir :: "world \<Rightarrow> Extract \<Rightarrow> string \<Rightarrow> string \<Rightarrow> string"
  tool_path :: "world \<Rightarrow> string \<Rightarrow> string \<Rightarrow> string \<Rightarrow> Arch \<Rightarrow> string"
  semver_clean :: "string \<Rightarrow> string option"
  matched_version :: "world \<Rightarrow> string \<Rightarrow> string \<Rightarrow> Arch \<Rightarrow> string option"
  release_asset :: "world \<Rightarrow> string \<Rightarrow> string \<Rightarrow> ReleaseAsset"
  platform :: Platform
  process_arch :: Arch
  getInputs :: "Platform \<Rightarrow> Arch \<Rightarrow> error + Inputs"
  interpolate :: "string \<Rightarrow> (string \<times> string) list \<Rightarrow> string"

text \<open>
  An asynchronous or throwing computation takes the state and returns the error thrown
  or the value, with the new state. \<^verbatim>\<open>await\<close> and statement sequencing are \<open>bindE\<close>:
  a throw skips everything after it, as no \<^verbatim>\<open>try\<close> stands in \<^verbatim>\<open>download\<close>.
\<close>

type_synonym 'a io = "world \<Rightarrow> (error + 'a) \<times> world"

definition returnE :: "'a \<Rightarrow> 'a io" where
  "returnE x w = (Inr x, w)"

definition throwE :: "error \<Rightarrow> 'a io" where
  "throwE err w = (Inl err, w)"

definition bindE :: "'a io \<Rightarrow> ('a \<Rightarrow> 'b io) \<Rightarrow> 'b io" where
  "bindE m f w = (case m w of (Inl err, w') \<Rightarrow> (Inl err, w') | (Inr x, w') \<Rightarrow> f x w')"

text \<open>
  One external call: it is recorded; when the environment makes it throw, nothing else
  changes; otherwise its effect \<open>upd\<close> is applied and its value returned.
\<close>

definition invoke :: "env \<Rightarrow> call \<Rightarrow> 'a \<Rightarrow> outcome \<Rightarrow> (world \<Rightarrow> world) \<Rightarrow> 'a io" where
  "invoke e c v out upd w =
     (case throws e w c of
        Some err \<Rightarrow> (Inl err, w\<lparr>trace := trace w @ [(c, Threw err)]\<rparr>)
      | None \<Rightarrow> (Inr v, (upd w)\<lparr>trace := trace w @ [(c, out)]\<rparr>))"

subsection \<open>The libraries\<close>

text \<open>
  \<^verbatim>\<open>path.join\<close> drops empty segments, joins the rest with the separator and gives
  \<^verbatim>\<open>.\<close> for an empty result. Its normalisation of \<^verbatim>\<open>..\<close>, \<^verbatim>\<open>.\<close> and doubled
  separators is not modelled: paths are compared as the strings the program builds.
\<close>

fun join_segs :: "string list \<Rightarrow> string" where
  "join_segs [] = []"
| "join_segs [s] = s"
| "join_segs (s # t # ss) = s @ ''/'' @ join_segs (t # ss)"

definition path_join :: "string list \<Rightarrow> string" where
  "path_join segs =
     (let j = join_segs (filter (\<lambda>s. s \<noteq> []) segs) in if j = [] then ''.'' else j)"

text \<open>\<open>under d p\<close>: the path \<open>p\<close> is \<open>d\<close> or lies below the directory \<open>d\<close>.\<close>

definition under :: "string \<Rightarrow> string \<Rightarrow> bool" where
  "under d p = (p = d \<or> take (Suc (length d)) p = d @ ''/'')"

text \<open>\<^verbatim>\<open>Math.random().toString(36).slice(2)\<close>: the next random string.\<close>

definition Math_random :: "env \<Rightarrow> string io" where
  "Math_random e w = (Inr (random_str e (rng w)), w\<lparr>rng := Suc (rng w)\<rparr>)"

definition fs_existsSync :: "string \<Rightarrow> bool io" where
  "fs_existsSync p w = (Inr (p \<in> set (files w)), w)"

definition fs_mkdirSync :: "env \<Rightarrow> string \<Rightarrow> unit io" where
  "fs_mkdirSync e p = invoke e (MkdirSync p) () Done (\<lambda>w. w\<lparr>files := p # files w\<rparr>)"

definition fs_chmodSync :: "env \<Rightarrow> string \<Rightarrow> string \<Rightarrow> unit io" where
  "fs_chmodSync e p mode = invoke e (ChmodSync p mode) () Done (\<lambda>w. w)"

text \<open>\<^verbatim>\<open>fs.rmSync(p, {recursive: true, force: true})\<close>, the only form the source uses.\<close>

definition fs_rmSync :: "env \<Rightarrow> string \<Rightarrow> unit io" where
  "fs_rmSync e p =
     invoke e (RmSync p) () Done (\<lambda>w. w\<lparr>files := filter (\<lambda>q. \<not> under p q) (files w)\<rparr>)"

definition fs_cpSync :: "env \<Rightarrow> string \<Rightarrow> string \<Rightarrow> unit io" where
  "fs_cpSync e src dst = invoke e (CpSync src dst) () Done (\<lambda>w. w\<lparr>files := dst # files w\<rparr>)"

text \<open>
  \<^verbatim>\<open>tc.downloadTool(url, dest, auth, headers)\<close> writes the file \<open>dest\<close>, or a temporary
  file of its own choice when \<open>dest\<close> is \<^verbatim>\<open>undefined\<close>, and returns its path.
\<close>

definition tc_downloadTool ::
  "env \<Rightarrow> string \<Rightarrow> string option \<Rightarrow> string option \<Rightarrow> headers option \<Rightarrow> string io" where
  "tc_downloadTool e u dest auth hdrs w =
     (let p = (case dest of Some d \<Rightarrow> d | None \<Rightarrow> temp_file e w)
      in invoke e (DownloadTool u dest auth hdrs) p (Gave p) (\<lambda>w. w\<lparr>files := p # files w\<rparr>) w)"

text \<open>
  An extractor unpacks the archive into \<open>toDir\<close>, which it creates, and returns the
  directory that holds the content.
\<close>

definition run_extract :: "env \<Rightarrow> Extract \<Rightarrow> string \<Rightarrow> string \<Rightarrow> string io" where
  "run_extract e x archivePath toDir w =
     (let d = extracted_dir e w x archivePath toDir
      in invoke e (ExtractCall x archivePath toDir) d (Gave d)
           (\<lambda>w. w\<lparr>files := toDir # files w\<rparr>) w)"

text \<open>
  \<^verbatim>\<open>tc.cacheDir(sourceDir, tool, version, arch)\<close> copies the directory into the tool
  cache and returns the cached directory. It registers it under the version
  \<^verbatim>\<open>semver.clean(version) || version\<close>.
\<close>

definition cache_version :: "env \<Rightarrow> string \<Rightarrow> string" where
  "cache_version e v = (case semver_clean e v of Some c \<Rightarrow> c | None \<Rightarrow> v)"

definition tc_cacheDir :: "env \<Rightarrow> string \<Rightarrow> string \<Rightarrow> string \<Rightarrow> Arch \<Rightarrow> string io" where
  "tc_cacheDir e src n v a w =
     (let p = tool_path e w src n v a
      in invoke e (CacheDir src n v a) p (Gave p)
           (\<lambda>w. w\<lparr>cache := (cache w)((n, cache_version e v, a) \<mapsto> p)\<rparr>) w)"

text \<open>
  \<^verbatim>\<open>tc.find(toolName, versionSpec, arch)\<close> looks an explicit version (one that
  \<^verbatim>\<open>semver.clean\<close> accepts) up directly. Any other string is a range: the library
  picks a cached version that satisfies it, if there is one, and looks up
  \<^verbatim>\<open>semver.clean\<close> of that. It returns the registered directory, or the empty string.
  So a directory registered under a version such as \<^verbatim>\<open>latest\<close> is found again only if
  the range matching selects it, which the semver library does not do for a string
  that is neither a version nor a range.
\<close>

definition find_version :: "env \<Rightarrow> world \<Rightarrow> string \<Rightarrow> string \<Rightarrow> Arch \<Rightarrow> string option" where
  "find_version e w n v a =
     (case semver_clean e v of
        Some c \<Rightarrow> Some c
      | None \<Rightarrow> (case matched_version e w n v a of
                   None \<Rightarrow> None
                 | Some m \<Rightarrow> semver_clean e m))"

definition cache_lookup :: "env \<Rightarrow> world \<Rightarrow> string \<Rightarrow> string \<Rightarrow> Arch \<Rightarrow> string" where
  "cache_lookup e w n v a =
     (case find_version e w n v a of
        None \<Rightarrow> []
      | Some c \<Rightarrow> (case cache w (n, c, a) of None \<Rightarrow> [] | Some d \<Rightarrow> d))"

definition tc_find :: "env \<Rightarrow> string \<Rightarrow> string \<Rightarrow> Arch \<Rightarrow> string io" where
  "tc_find e n v a w =
     (let p = cache_lookup e w n v a
      in invoke e (Find n v a) p (Gave p) (\<lambda>w. w) w)"

definition github_findReleaseAsset :: "env \<Rightarrow> string \<Rightarrow> string \<Rightarrow> ReleaseAsset io" where
  "github_findReleaseAsset e u token w =
     (let a = release_asset e w u token
      in invoke e (FindReleaseAsset u token) a (GaveAsset a) (\<lambda>w. w) w)"

definition core_addPath :: "env \<Rightarrow> string \<Rightarrow> unit io" where
  "core_addPath e dir = invoke e (AddPath dir) () Done (\<lambda>w. w)"

text \<open>\<^verbatim>\<open>core.setFailed\<close> reports the error and marks the run as failed; it does not throw.\<close>

definition core_setFailed :: "error \<Rightarrow> world \<Rightarrow> world" where
  "core_setFailed err w = w\<lparr>trace := trace w @ [(SetFailed err, Done)]\<rparr>"

section \<open>\<^verbatim>\<open>download\<close> and \<^verbatim>\<open>findOrDownload\<close> (\<^verbatim>\<open>src/main.ts\<close>)\<close>

text \<open>
  \<open>inContainer\<close> is \<^verbatim>\<open>process.env.CONTAINER_ID != undefined\<close>. The variable
  \<^verbatim>\<open>tmpDir\<close> is assigned only outside a container: it is \<open>None\<close> while
  \<^verbatim>\<open>undefined\<close>, and \<^verbatim>\<open>fs.rmSync(undefined)\<close> throws a \<^verbatim>\<open>TypeError\<close>.
\<close>

definition inContainer :: "env \<Rightarrow> bool" where
  "inContainer e = (CONTAINER_ID e \<noteq> None)"

definition download :: "env \<Rightarrow> ReleaseConfig \<Rightarrow> string io" where
  "download e releaseConfig =
     bindE (if truthy (githubToken releaseConfig)
            then github_findReleaseAsset e (url (archive releaseConfig))
                   (case githubToken releaseConfig of Some t \<Rightarrow> t | None \<Rightarrow> [])
            else returnE \<lparr>asset_url = url (archive releaseConfig),
                           asset_auth = None, asset_headers = None\<rparr>)
     (\<lambda>asset.
     bindE (if inContainer e
            then (let dest = path_join [homedir e, ''.local'', ''bin''] in
                  bindE (fs_existsSync dest) (\<lambda>ex.
                  bindE (if \<not> ex then fs_mkdirSync e dest else returnE ()) (\<lambda>_.
                  returnE (dest, None))))
            else bindE (Math_random e) (\<lambda>r.
                 (let tmpDir = path_join [homedir e, ''tmp'', r] in
                  returnE (path_join [tmpDir, name (tool releaseConfig)], Some tmpDir))))
     (\<lambda>(dest, tmpDir).
       case extract_op (archive releaseConfig) of
         None \<Rightarrow>
           bindE (tc_downloadTool e (asset_url asset) (Some dest)
                    (asset_auth asset) (asset_headers asset)) (\<lambda>_.
           bindE (fs_chmodSync e dest ''755'') (\<lambda>_.
           if \<not> inContainer e
           then bindE (tc_cacheDir e dest (name (tool releaseConfig))
                         (version (tool releaseConfig)) (arch (tool releaseConfig))) (\<lambda>ret.
                bindE (case tmpDir of Some t \<Rightarrow> fs_rmSync e t
                       | None \<Rightarrow> throwE (Error ''TypeError'')) (\<lambda>_.
                returnE ret))
           else returnE (path_join [dest, name (tool releaseConfig)])))
       | Some extract \<Rightarrow>
           bindE (tc_downloadTool e (asset_url asset) None
                    (asset_auth asset) (asset_headers asset)) (\<lambda>archivePath.
           bindE (Math_random e) (\<lambda>r.
           (let archiveDest = path_join [homedir e, ''tmp'', r] in
           bindE (run_extract e extract archivePath archiveDest) (\<lambda>extracted.
           (let releaseFolder = (case subdir (archive releaseConfig) of
                                   Some s \<Rightarrow> if s \<noteq> [] then path_join [extracted, s]
                                             else extracted
                                 | None \<Rightarrow> extracted) in
           if inContainer e
           then bindE (fs_cpSync e releaseFolder dest) (\<lambda>_.
                bindE (fs_rmSync e archiveDest) (\<lambda>_.
                bindE (fs_rmSync e archivePath) (\<lambda>_.
                returnE (path_join [dest, name (tool releaseConfig)]))))
           else bindE (tc_cacheDir e releaseFolder (name (tool releaseConfig))
                         (version (tool releaseConfig)) (arch (tool releaseConfig))) (\<lambda>ret.
                bindE (fs_rmSync e archiveDest) (\<lambda>_.
                bindE (fs_rmSync e archivePath) (\<lambda>_.
                returnE ret))))))))))"

definition findOrDownload :: "env \<Rightarrow> ReleaseConfig \<Rightarrow> string io" where
  "findOrDownload e releaseConfig =
     bindE (tc_find e (name (tool releaseConfig)) (version (tool releaseConfig))
              (arch (tool releaseConfig))) (\<lambda>existingDir.
     if existingDir \<noteq> [] then returnE existingDir
     else download e releaseConfig)"

section \<open>\<^verbatim>\<open>mkReleaseConfig\<close> and \<^verbatim>\<open>run\<close> (\<^verbatim>\<open>src/main.ts\<close>)\<close>

text \<open>
  \<^verbatim>\<open>getExtract(ext as PkgExtension)\<close>: the cast checks nothing, and for a string
  that is none of the four extensions the \<^verbatim>\<open>switch\<close> falls through, so the result
  is \<^verbatim>\<open>undefined\<close>, which \<^verbatim>\<open>download\<close> treats like \<^verbatim>\<open>null\<close>.
\<close>

definition as_PkgExtension :: "string \<Rightarrow> PkgExtension option" where
  "as_PkgExtension ext =
     (if ext = ''tar.gz'' then Some TarGz
      else if ext = ''zip'' then Some Zip
      else if ext = ''7z'' then Some SevenZ
      else if ext = ''xar'' then Some Xar
      else None)"

definition mkReleaseConfig :: "env \<Rightarrow> Platform \<Rightarrow> Arch \<Rightarrow> error + ReleaseConfig" where
  "mkReleaseConfig e pf osArch =
     (case getInputs e pf osArch of
        Inl err \<Rightarrow> Inl err
      | Inr i \<Rightarrow>
          (let templateVars = [(''name'', in_name i), (''version'', in_version i),
                               (''os'', in_os i), (''arch'', in_arch i), (''ext'', in_ext i)]
           in Inr \<lparr>tool = \<lparr>name = in_name i, version = in_version i, arch = osArch\<rparr>,
                    archive =
                      \<lparr>url = interpolate e (in_url i) templateVars,
                       subdir = (case in_subdir i of
                                   Some t \<Rightarrow> if t \<noteq> [] then Some (interpolate e t templateVars)
                                             else None
                                 | None \<Rightarrow> None),
                       extract_op = (if in_noExtract i then None
                                     else (case as_PkgExtension (in_ext i) of
                                             Some k \<Rightarrow> getExtract k
                                           | None \<Rightarrow> None))\<rparr>,
                    githubToken = in_githubToken i\<rparr>))"

text \<open>
  \<^verbatim>\<open>run\<close> catches whatever is thrown inside its \<^verbatim>\<open>try\<close> block and hands it to
  \<^verbatim>\<open>core.setFailed\<close>; it never throws itself.
\<close>

definition run :: "env \<Rightarrow> world \<Rightarrow> world" where
  "run e w =
     (case mkReleaseConfig e (platform e) (process_arch e) of
        Inl err \<Rightarrow> core_setFailed err w
      | Inr config \<Rightarrow>
          (case bindE (findOrDownload e config) (\<lambda>dir. core_addPath e dir) w of
             (Inl err, w') \<Rightarrow> core_setFailed err w'
           | (Inr _, w') \<Rightarrow> w'))"

section \<open>The other revision of \<^verbatim>\<open>download\<close> (\<^verbatim>\<open>src/unnamed/part_001\<close>)\<close>

text \<open>
  The second copy of \<^verbatim>\<open>main.ts\<close> among the sources differs from the first in
  \<^verbatim>\<open>download\<close> only: it keeps the destination directory in \<^verbatim>\<open>destDir\<close> and derives
  the file path \<^verbatim>\<open>dest\<close> from it inside the raw-binary branch. A third copy
  (\<^verbatim>\<open>src/unnamed/part_000\<close>) has the same \<^verbatim>\<open>download\<close> as the second, except that it
  installs into a directory given by an input \<^verbatim>\<open>targetDir\<close> instead of looking at
  \<^verbatim>\<open>CONTAINER_ID\<close>; it is not modelled.
\<close>

definition download_part_001 :: "env \<Rightarrow> ReleaseConfig \<Rightarrow> string io" where
  "download_part_001 e releaseConfig =
     bindE (if truthy (githubToken releaseConfig)
            then github_findReleaseAsset e (url (archive releaseConfig))
                   (case githubToken releaseConfig of Some t \<Rightarrow> t | None \<Rightarrow> [])
            else returnE \<lparr>asset_url = url (archive releaseConfig),
                           asset_auth = None, asset_headers = None\<rparr>)
     (\<lambda>asset.
     bindE (if inContainer e
            then (let destDir = path_join [homedir e, ''.local'', ''bin''] in
                  bindE (fs_existsSync destDir) (\<lambda>ex.
                  bindE (if \<not> ex then fs_mkdirSync e destDir else returnE ()) (\<lambda>_.
                  returnE destDir)))
            else bindE (Math_random e) (\<lambda>r.
                 returnE (path_join [homedir e, ''tmp'', r])))
     (\<lambda>destDir.
       case extract_op (archive releaseConfig) of
         None \<Rightarrow>
           (let dest = path_join [destDir, name (tool releaseConfig)] in
           bindE (tc_downloadTool e (asset_url asset) (Some dest)
                    (asset_auth asset) (asset_headers asset)) (\<lambda>_.
           bindE (fs_chmodSync e dest ''755'') (\<lambda>_.
           if \<not> inContainer e
           then bindE (tc_cacheDir e destDir (name (tool releaseConfig))
                         (version (tool releaseConfig)) (arch (tool releaseConfig))) (\<lambda>ret.
                bindE (fs_rmSync e destDir) (\<lambda>_.
                returnE ret))
           else returnE dest)))
       | Some extract \<Rightarrow>
           bindE (tc_downloadTool e (asset_url asset) None
                    (asset_auth asset) (asset_headers asset)) (\<lambda>archivePath.
           bindE (Math_random e) (\<lambda>r.
           (let archiveDest = path_join [homedir e, ''tmp'', r] in
           bindE (run_extract e extract archivePath archiveDest) (\<lambda>extracted.
           (let releaseFolder = (case subdir (archive releaseConfig) of
                                   Some s \<Rightarrow> if s \<noteq> [] then path_join [extracted, s]
                                             else extracted
                                 | None \<Rightarrow> extracted) in
           if inContainer e
           then bindE (fs_cpSync e releaseFolder destDir) (\<lambda>_.
                bindE (fs_rmSync e archiveDest) (\<lambda>_.
                bindE (fs_rmSync e archivePath) (\<lambda>_.
                returnE (path_join [destDir, name (tool releaseConfig)]))))
           else bindE (tc_cacheDir e releaseFolder (name (tool releaseConfig))
                         (version (tool releaseConfig)) (arch (tool releaseConfig))) (\<lambda>ret.
                bindE (fs_rmSync e archiveDest) (\<lambda>_.
                bindE (fs_rmSync e archivePath) (\<lambda>_.
                returnE ret))))))))))"

section \<open>Reading the record of calls\<close>

text \<open>What a run added to the record: the events after those of the starting state.\<close>

definition events_since :: "world \<Rightarrow> world \<Rightarrow> (call \<times> outcome) list" where
  "events_since w w' = drop (length (trace w)) (trace w')"

definition calls_since :: "world \<Rightarrow> world \<Rightarrow> call list" where
  "calls_since w w' = map fst (events_since w w')"

fun is_network :: "call \<Rightarrow> bool" where
  "is_network (FindReleaseAsset u t) = True"
| "is_network (DownloadTool u d a h) = True"
| "is_network c = False"

fun is_CacheDir :: "call \<Rightarrow> bool" where
  "is_CacheDir (CacheDir s n v a) = True"
| "is_CacheDir c = False"

fun is_RmSync :: "call \<Rightarrow> bool" where
  "is_RmSync (RmSync p) = True"
| "is_RmSync c = False"

text \<open>The paths deleted, the downloads, and the other calls by kind, in order.\<close>

definition removed :: "(call \<times> outcome) list \<Rightarrow> string list" where
  "removed evs =
     List.map_filter (\<lambda>ev. case ev of (RmSync p, Done) \<Rightarrow> Some p | _ \<Rightarrow> None) evs"

definition temp_downloads :: "(call \<times> outcome) list \<Rightarrow> string list" where
  "temp_downloads evs =
     List.map_filter (\<lambda>ev. case ev of (DownloadTool u None a h, Gave p) \<Rightarrow> Some p
                                 | _ \<Rightarrow> None) evs"

definition dest_downloads :: "(call \<times> outcome) list \<Rightarrow> string list" where
  "dest_downloads evs =
     List.map_filter (\<lambda>ev. case ev of (DownloadTool u (Some d) a h, Gave p) \<Rightarrow> Some d
                                 | _ \<Rightarrow> None) evs"

definition downloads :: "call list \<Rightarrow> (string \<times> string option \<times> headers option) list" where
  "downloads cs =
     List.map_filter (\<lambda>c. case c of DownloadTool u d a h \<Rightarrow> Some (u, a, h) | _ \<Rightarrow> None) cs"

definition chmods :: "(call \<times> outcome) list \<Rightarrow> (string \<times> string) list" where
  "chmods evs =
     List.map_filter (\<lambda>ev. case ev of (ChmodSync p m, Done) \<Rightarrow> Some (p, m) | _ \<Rightarrow> None) evs"

definition extract_dirs :: "(call \<times> outcome) list \<Rightarrow> string list" where
  "extract_dirs evs =
     List.map_filter (\<lambda>ev. case ev of (ExtractCall x a d, Gave p) \<Rightarrow> Some d | _ \<Rightarrow> None) evs"

definition extraction_roots :: "(call \<times> outcome) list \<Rightarrow> string list" where
  "extraction_roots evs =
     List.map_filter (\<lambda>ev. case ev of (ExtractCall x a d, Gave p) \<Rightarrow> Some p | _ \<Rightarrow> None) evs"

text \<open>The cache registrations: source directory, identity and the directory returned.\<close>

definition cache_regs ::
  "(call \<times> outcome) list \<Rightarrow> (string \<times> string \<times> string \<times> Arch \<times> string) list" where
  "cache_regs evs =
     List.map_filter (\<lambda>ev. case ev of (CacheDir s n v a, Gave p) \<Rightarrow> Some (s, n, v, a, p)
                                 | _ \<Rightarrow> None) evs"

text \<open>Where installed content is taken from, and where it is written.\<close>

definition install_sources :: "call list \<Rightarrow> string list" where
  "install_sources cs =
     List.map_filter (\<lambda>c. case c of CacheDir s n v a \<Rightarrow> Some s | CpSync s d \<Rightarrow> Some s
                                | _ \<Rightarrow> None) cs"

definition install_targets :: "call list \<Rightarrow> string list" where
  "install_targets cs =
     List.map_filter (\<lambda>c. case c of DownloadTool u (Some d) a h \<Rightarrow> Some d
                                | CpSync s d \<Rightarrow> Some d | _ \<Rightarrow> None) cs"

text \<open>
  The event a run ended with before its deletions: the last one that is not an
  \<^verbatim>\<open>fs.rmSync\<close>.
\<close>

definition before_cleanup :: "(call \<times> outcome) list \<Rightarrow> (call \<times> outcome) option" where
  "before_cleanup evs =
     (case dropWhile (\<lambda>ev. is_RmSync (fst ev)) (rev evs) of [] \<Rightarrow> None | ev # _ \<Rightarrow> Some ev)"

text \<open>\<open>thrown_last err evs\<close>: the last call recorded threw exactly \<open>err\<close>.\<close>

definition thrown_last :: "error \<Rightarrow> (call \<times> outcome) list \<Rightarrow> bool" where
  "thrown_last err evs = (evs \<noteq> [] \<and> snd (last evs) = Threw err)"

text \<open>\<open>mentions s t\<close>: the string \<open>s\<close> occurs in \<open>t\<close>.\<close>

fun mentions :: "string \<Rightarrow> string \<Rightarrow> bool" where
  "mentions s [] = (s = [])"
| "mentions s (c # cs) = (take (length s) (c # cs) = s \<or> mentions s cs)"

text \<open>
  The state follows from the record: each successful call changes the cache and the
  existing paths in one way.
\<close>

fun cache_step ::
  "env \<Rightarrow> call \<times> outcome \<Rightarrow> ((string \<times> string \<times> Arch) \<rightharpoonup> string)
     \<Rightarrow> ((string \<times> string \<times> Arch) \<rightharpoonup> string)" where
  "cache_step e (CacheDir src n v a, Gave p) m = m((n, cache_version e v, a) \<mapsto> p)"
| "cache_step e ev m = m"

fun files_step :: "call \<times> outcome \<Rightarrow> string list \<Rightarrow> string list" where
  "files_step (MkdirSync p, Done) fs = p # fs"
| "files_step (DownloadTool u d a h, Gave p) fs = p # fs"
| "files_step (ExtractCall x a d, Gave p) fs = d # fs"
| "files_step (CpSync s d, Done) fs = d # fs"
| "files_step (RmSync p, Done) fs = filter (\<lambda>q. \<not> under p q) fs"
| "files_step ev fs = fs"

text \<open>
  \<open>spec e m Q\<close>: every run of \<open>m\<close> only appends to the record, leaves the cache and the
  existing paths as the appended events say, and its result and events satisfy \<open>Q\<close>.
\<close>

definition spec ::
  "env \<Rightarrow> 'a io \<Rightarrow> (error + 'a \<Rightarrow> (call \<times> outcome) list \<Rightarrow> bool) \<Rightarrow> bool" where
  "spec e m Q =
     (\<forall>w r w'. m w = (r, w') \<longrightarrow>
        (\<exists>evs. trace w' = trace w @ evs \<and> cache w' = fold (cache_step e) evs (cache w) \<and>
               files w' = fold files_step evs (files w) \<and> Q r evs))"

text \<open>
  Three properties of calls and events that the statements below use: a call that
  carries no credential and downloads from the given URL; a call that belongs to the
  raw-binary path (no extractor, no download to a temporary archive, no copy); and a
  record that ends with the registration of the identity followed by deletions only,
  with no deletion and no other registration before it.
\<close>

fun uncredentialed :: "string \<Rightarrow> call \<Rightarrow> bool" where
  "uncredentialed u0 (FindReleaseAsset u t) = False"
| "uncredentialed u0 (DownloadTool u d a h) = (u = u0 \<and> a = None \<and> h = None)"
| "uncredentialed u0 c = True"

fun raw_binary_call :: "call \<Rightarrow> bool" where
  "raw_binary_call (ExtractCall x a d) = False"
| "raw_binary_call (DownloadTool u None a h) = False"
| "raw_binary_call (CpSync s d) = False"
| "raw_binary_call c = True"

definition registered_last ::
  "string \<Rightarrow> string \<Rightarrow> Arch \<Rightarrow> string \<Rightarrow> (call \<times> outcome) list \<Rightarrow> bool" where
  "registered_last n v a p evs =
     (case dropWhile (\<lambda>ev. is_RmSync (fst ev)) (rev evs) of
        (CacheDir s n' v' a', Gave p') # earlier \<Rightarrow>
          n' = n \<and> v' = v \<and> a' = a \<and> p' = p \<and>
          \<not> list_ex is_RmSync (map fst earlier) \<and> \<not> list_ex is_CacheDir (map fst earlier)
      | _ \<Rightarrow> False)"

text \<open>
  \<open>deletions_last evs\<close>: the successful deletions are the last events of the record,
  and no \<^verbatim>\<open>fs.rmSync\<close> is called before them. \<open>stops_at_throw err evs\<close>: the last
  call threw \<open>err\<close> and no call before it threw.
\<close>

fun is_Threw :: "outcome \<Rightarrow> bool" where
  "is_Threw (Threw err) = True"
| "is_Threw out = False"

definition deletions_last :: "(call \<times> outcome) list \<Rightarrow> bool" where
  "deletions_last evs =
     (map fst (drop (length evs - length (removed evs)) evs) = map RmSync (removed evs) \<and>
      \<not> list_ex is_RmSync (map fst (take (length evs - length (removed evs)) evs)))"

definition stops_at_throw :: "error \<Rightarrow> (call \<times> outcome) list \<Rightarrow> bool" where
  "stops_at_throw err evs =
     (thrown_last err evs \<and> \<not> list_ex is_Threw (map snd (butlast evs)))"

section \<open>Concrete runs\<close>

text \<open>
  A runner outside a container where nothing fails, the same inside a container, and
  one whose extractor rejects the archive. Their \<^verbatim>\<open>semver.clean\<close> accepts the strings
  of digits and dots and changes nothing in them; no range matches a cached version.
\<close>

definition plain_version :: "string \<Rightarrow> bool" where
  "plain_version v = (v \<noteq> [] \<and> list_all (\<lambda>c. c \<in> set ''0123456789.'') v)"

definition env0 :: env where
  "env0 =
     \<lparr>homedir = ''/home/u'', CONTAINER_ID = None,
      random_str = (\<lambda>n. if n = 0 then ''r0'' else ''r1''),
      throws = (\<lambda>w c. None),
      temp_file = (\<lambda>w. ''/tmp/dl''),
      extracted_dir = (\<lambda>w x a d. d),
      tool_path = (\<lambda>w src n v a. path_join [''/cache'', n, v, a]),
      semver_clean = (\<lambda>v. if plain_version v then Some v else None),
      matched_version = (\<lambda>w n v a. None),
      release_asset = (\<lambda>w u t. \<lparr>asset_url = u @ ''?asset'', asset_auth = Some t,
                                 asset_headers = None\<rparr>),
      platform = ''linux'', process_arch = ''x64'',
      getInputs = (\<lambda>pf a. Inr \<lparr>in_name = ''foo'', in_version = ''1.2.0'',
                               in_url = ''https://x/foo.tgz'', in_subdir = Some ''foo-1.2.0'',
                               in_os = ''linux'', in_arch = ''amd64'', in_ext = ''tar.gz'',
                               in_noExtract = False, in_githubToken = None\<rparr>),
      interpolate = (\<lambda>t vars. t)\<rparr>"

definition env_container :: env where
  "env_container = env0\<lparr>CONTAINER_ID := Some ''c1''\<rparr>"

definition env_corrupt :: env where
  "env_corrupt =
     env0\<lparr>throws := (\<lambda>w c. case c of ExtractCall x a d \<Rightarrow> Some (Error ''corrupt archive'')
                              | _ \<Rightarrow> None)\<rparr>"

definition w0 :: world where
  "w0 = \<lparr>files = [], cache = Map.empty, trace = [], rng = 0\<rparr>"

definition rc_archive :: ReleaseConfig where
  "rc_archive =
     \<lparr>tool = \<lparr>name = ''foo'', version = ''1.2.0'', arch = ''x64''\<rparr>,
      archive = \<lparr>url = ''https://x/foo.tgz'', subdir = Some ''foo-1.2.0'',
                 extract_op = Some extractTar\<rparr>,
      githubToken = None\<rparr>"

definition rc_binary :: ReleaseConfig where
  "rc_binary =
     \<lparr>tool = \<lparr>name = ''foo'', version = ''1.2.0'', arch = ''x64''\<rparr>,
      archive = \<lparr>url = ''https://x/foo'', subdir = None, extract_op = None\<rparr>,
      githubToken = None\<rparr>"

text \<open>The state a first successful \<^verbatim>\<open>findOrDownload\<close> leaves behind.\<close>

definition w1 :: world where
  "w1 = snd (findOrDownload env0 rc_archive w0)"

text \<open>The same archive under a version that is no semantic version, and the state after it.\<close>

definition rc_latest :: ReleaseConfig where
  "rc_latest = rc_archive\<lparr>tool := (tool rc_archive)\<lparr>version := ''latest''\<rparr>\<rparr>"

definition w_latest :: world where
  "w_latest = snd (findOrDownload env0 rc_latest w0)"




section \<open>Rules for following a run call by call\<close>

text \<open>
  A property of every run of a computation is proved by walking through its calls:
  each rule below reduces \<open>spec\<close> of a computation to \<open>spec\<close> of its parts, with
  the events so far collected in the property.
\<close>

lemma specD:
  assumes "spec e m Q" "m w = (r, w')"
  shows "Q r (events_since w w')" "cache w' = fold (cache_step e) (events_since w w') (cache w)"
        "files w' = fold files_step (events_since w w') (files w)"
        "trace w' = trace w @ events_since w w'"
  using assms unfolding spec_def events_since_def by fastforce+

lemma spec_returnE: "Q (Inr x) [] \<Longrightarrow> spec e (returnE x) Q"
  by (simp add: spec_def returnE_def)

lemma spec_throwE: "Q (Inl x) [] \<Longrightarrow> spec e (throwE x) Q"
  by (simp add: spec_def throwE_def)

lemma spec_bindE:
  assumes "spec e m (\<lambda>r evs1. case r of Inl err \<Rightarrow> Q (Inl err) evs1
                              | Inr x \<Rightarrow> spec e (f x) (\<lambda>r' evs2. Q r' (evs1 @ evs2)))"
  shows "spec e (bindE m f) Q"
  unfolding spec_def
proof (intro allI impI)
  fix w r w'
  assume run: "bindE m f w = (r, w')"
  obtain r1 w1 where m: "m w = (r1, w1)" by (cases "m w")
  from assms m obtain evs1 where
    e1: "trace w1 = trace w @ evs1" "cache w1 = fold (cache_step e) evs1 (cache w)"
        "files w1 = fold files_step evs1 (files w)" and
    q1: "case r1 of Inl err \<Rightarrow> Q (Inl err) evs1
          | Inr x \<Rightarrow> spec e (f x) (\<lambda>r' evs2. Q r' (evs1 @ evs2))"
    unfolding spec_def by blast
  show "\<exists>evs. trace w' = trace w @ evs \<and> cache w' = fold (cache_step e) evs (cache w) \<and>
             files w' = fold files_step evs (files w) \<and> Q r evs"
  proof (cases r1)
    case (Inl err)
    with run m have "r = Inl err" "w' = w1" by (simp_all add: bindE_def)
    with e1 q1 Inl show ?thesis by auto
  next
    case (Inr x)
    with run m have fx: "f x w1 = (r, w')" by (simp add: bindE_def)
    from q1 Inr have "spec e (f x) (\<lambda>r' evs2. Q r' (evs1 @ evs2))" by simp
    with fx obtain evs2 where
      e2: "trace w' = trace w1 @ evs2" "cache w' = fold (cache_step e) evs2 (cache w1)"
          "files w' = fold files_step evs2 (files w1)" "Q r (evs1 @ evs2)"
      unfolding spec_def by blast
    with e1 show ?thesis by (intro exI[of _ "evs1 @ evs2"]) simp
  qed
qed

lemma spec_invoke:
  assumes "\<And>err. Q (Inl err) [(c, Threw err)]" "Q (Inr v) [(c, out)]"
    and "\<And>w. cache (upd w) = cache_step e (c, out) (cache w)"
    and "\<And>w. files (upd w) = files_step (c, out) (files w)"
  shows "spec e (invoke e c v out upd) Q"
  unfolding spec_def
proof (intro allI impI)
  fix w r w'
  assume run: "invoke e c v out upd w = (r, w')"
  show "\<exists>evs. trace w' = trace w @ evs \<and> cache w' = fold (cache_step e) evs (cache w) \<and>
             files w' = fold files_step evs (files w) \<and> Q r evs"
  proof (cases "throws e w c")
    case None
    with run have "r = Inr v" "w' = (upd w)\<lparr>trace := trace w @ [(c, out)]\<rparr>"
      by (simp_all add: invoke_def)
    with assms show ?thesis by (intro exI[of _ "[(c, out)]"]) simp
  next
    case (Some err)
    with run have "r = Inl err" "w' = w\<lparr>trace := trace w @ [(c, Threw err)]\<rparr>"
      by (simp_all add: invoke_def)
    with assms(1) show ?thesis by (intro exI[of _ "[(c, Threw err)]"]) simp
  qed
qed

lemma spec_Math_random: "(\<And>r. Q (Inr r) []) \<Longrightarrow> spec e (Math_random e) Q"
  by (simp add: spec_def Math_random_def)

lemma spec_existsSync: "(\<And>b. Q (Inr b) []) \<Longrightarrow> spec e (fs_existsSync p) Q"
  by (simp add: spec_def fs_existsSync_def)

lemma spec_mkdirSync:
  "(\<And>err. Q (Inl err) [(MkdirSync p, Threw err)]) \<Longrightarrow> Q (Inr ()) [(MkdirSync p, Done)]
   \<Longrightarrow> spec e (fs_mkdirSync e p) Q"
  unfolding fs_mkdirSync_def by (rule spec_invoke) simp_all

lemma spec_chmodSync:
  "(\<And>err. Q (Inl err) [(ChmodSync p m, Threw err)]) \<Longrightarrow> Q (Inr ()) [(ChmodSync p m, Done)]
   \<Longrightarrow> spec e (fs_chmodSync e p m) Q"
  unfolding fs_chmodSync_def by (rule spec_invoke) simp_all

lemma spec_rmSync:
  "(\<And>err. Q (Inl err) [(RmSync p, Threw err)]) \<Longrightarrow> Q (Inr ()) [(RmSync p, Done)]
   \<Longrightarrow> spec e (fs_rmSync e p) Q"
  unfolding fs_rmSync_def by (rule spec_invoke) simp_all

lemma spec_cpSync:
  "(\<And>err. Q (Inl err) [(CpSync s d, Threw err)]) \<Longrightarrow> Q (Inr ()) [(CpSync s d, Done)]
   \<Longrightarrow> spec e (fs_cpSync e s d) Q"
  unfolding fs_cpSync_def by (rule spec_invoke) simp_all

lemma spec_fun: "(\<And>w. spec e (\<lambda>w'. m w w') Q) \<Longrightarrow> spec e (\<lambda>w. m w w) Q"
  unfolding spec_def by blast

lemma spec_downloadTool:
  assumes "\<And>err. Q (Inl err) [(DownloadTool u dest a h, Threw err)]"
    and "\<And>p. (\<forall>d. dest = Some d \<longrightarrow> p = d) \<Longrightarrow> Q (Inr p) [(DownloadTool u dest a h, Gave p)]"
  shows "spec e (tc_downloadTool e u dest a h) Q"
proof -
  have "spec e (\<lambda>w'. tc_downloadTool e u dest a h w') Q"
    unfolding tc_downloadTool_def Let_def
    by (rule spec_fun, rule spec_invoke) (use assms in \<open>auto split: option.splits\<close>)
  then show ?thesis by simp
qed

lemma spec_extract:
  assumes "\<And>err. Q (Inl err) [(ExtractCall x a d, Threw err)]"
    and "\<And>p. Q (Inr p) [(ExtractCall x a d, Gave p)]"
  shows "spec e (run_extract e x a d) Q"
proof -
  have "spec e (\<lambda>w'. run_extract e x a d w') Q"
    unfolding run_extract_def Let_def
    by (rule spec_fun, rule spec_invoke) (use assms in auto)
  then show ?thesis by simp
qed

lemma spec_cacheDir:
  assumes "\<And>err. Q (Inl err) [(CacheDir s n v a, Threw err)]"
    and "\<And>p. Q (Inr p) [(CacheDir s n v a, Gave p)]"
  shows "spec e (tc_cacheDir e s n v a) Q"
proof -
  have "spec e (\<lambda>w'. tc_cacheDir e s n v a w') Q"
    unfolding tc_cacheDir_def Let_def
    by (rule spec_fun, rule spec_invoke) (use assms in auto)
  then show ?thesis by simp
qed

lemma spec_findReleaseAsset:
  assumes "\<And>err. Q (Inl err) [(FindReleaseAsset u t, Threw err)]"
    and "\<And>p. Q (Inr p) [(FindReleaseAsset u t, GaveAsset p)]"
  shows "spec e (github_findReleaseAsset e u t) Q"
proof -
  have "spec e (\<lambda>w'. github_findReleaseAsset e u t w') Q"
    unfolding github_findReleaseAsset_def Let_def
    by (rule spec_fun, rule spec_invoke) (use assms in auto)
  then show ?thesis by simp
qed

lemma spec_if: "(b \<Longrightarrow> spec e m Q) \<Longrightarrow> (\<not> b \<Longrightarrow> spec e n Q) \<Longrightarrow> spec e (if b then m else n) Q"
  by simp

lemma spec_case_option:
  "(x = None \<Longrightarrow> spec e m Q) \<Longrightarrow> (\<And>y. x = Some y \<Longrightarrow> spec e (n y) Q)
   \<Longrightarrow> spec e (case x of None \<Rightarrow> m | Some y \<Rightarrow> n y) Q"
  by (cases x) simp_all

lemma spec_find:
  assumes "\<And>err. Q (Inl err) [(Find n v a, Threw err)]"
    and "\<And>p. Q (Inr p) [(Find n v a, Gave p)]"
  shows "spec e (tc_find e n v a) Q"
proof -
  have "spec e (\<lambda>w'. tc_find e n v a w') Q"
    unfolding tc_find_def Let_def
    by (rule spec_fun, rule spec_invoke) (use assms in auto)
  then show ?thesis by simp
qed

lemma spec_addPath:
  "(\<And>err. Q (Inl err) [(AddPath p, Threw err)]) \<Longrightarrow> Q (Inr ()) [(AddPath p, Done)]
   \<Longrightarrow> spec e (core_addPath e p) Q"
  unfolding core_addPath_def by (rule spec_invoke) simp_all

lemmas spec_rules = spec_bindE spec_find spec_addPath spec_returnE spec_throwE spec_Math_random spec_existsSync
  spec_mkdirSync spec_chmodSync spec_rmSync spec_cpSync spec_downloadTool spec_extract
  spec_cacheDir spec_findReleaseAsset spec_if spec_case_option

lemmas query_defs = removed_def temp_downloads_def dest_downloads_def downloads_def chmods_def
  extract_dirs_def extraction_roots_def cache_regs_def install_sources_def install_targets_def
  before_cleanup_def thrown_last_def deletions_last_def stops_at_throw_def

lemma path_join_empty_seg: "root \<noteq> [] \<Longrightarrow> path_join [root, []] = root"
  by (simp add: path_join_def)

lemma under_self: "under p p"
  by (simp add: under_def)

section \<open>The claims\<close>

subsection \<open>C10: no credential, no private-asset lookup\<close>

lemma download_without_token_spec:
  "githubToken rc = None \<Longrightarrow>
   spec e (download e rc) (\<lambda>r evs. list_all (uncredentialed (url (archive rc))) (map fst evs) \<and>
      (\<forall>p. r = Inr p \<longrightarrow> downloads (map fst evs) = [(url (archive rc), None, None)]))"
  unfolding download_def Let_def
  by (rule spec_rules conjI impI | simp add: query_defs)+

text \<open>
  C10. When \<^verbatim>\<open>githubToken\<close> is \<^verbatim>\<open>null\<close>, \<^verbatim>\<open>download\<close> never calls
  \<^verbatim>\<open>github.findReleaseAsset\<close>, and every \<^verbatim>\<open>tc.downloadTool\<close> call it makes has the
  URL \<^verbatim>\<open>archive.url\<close> unchanged and neither an auth token nor headers; a successful
  run makes exactly one such download.
\<close>

theorem C10_no_credential:
  assumes "githubToken rc = None" and "download e rc w = (r, w')"
  shows "list_all (uncredentialed (url (archive rc))) (calls_since w w') \<and>
      (\<forall>p. r = Inr p \<longrightarrow> downloads (calls_since w w') = [(url (archive rc), None, None)])"
  using specD(1)[OF download_without_token_spec[OF assms(1)] assms(2)] by (simp add: calls_since_def)

theorem C10_witness:
  "githubToken rc_archive = None \<and>
   fst (download env0 rc_archive w0) = Inr ''/cache/foo/1.2.0/x64'' \<and>
   downloads (calls_since w0 (snd (download env0 rc_archive w0))) = [(''https://x/foo.tgz'', None, None)]"
proof -
  have h1: "githubToken rc_archive = None" by (simp add: rc_archive_def)
  have h2: "fst (download env0 rc_archive w0) = Inr ''/cache/foo/1.2.0/x64''" by code_simp
  have h3: "download env0 rc_archive w0 = (Inr ''/cache/foo/1.2.0/x64'', snd (download env0 rc_archive w0))"
    using h2 by (metis prod.collapse)
  from C10_no_credential[OF h1 h3] h1 h2 show ?thesis by (simp add: rc_archive_def)
qed

subsection \<open>C4: the four extractors, and the raw-binary path\<close>

lemma download_raw_path_spec:
  "extract_op (archive rc) = None \<Longrightarrow>
   spec e (download e rc) (\<lambda>r evs. list_all raw_binary_call (map fst evs) \<and>
      (\<forall>p. r = Inr p \<longrightarrow> length (dest_downloads evs) = 1))"
  unfolding download_def Let_def
  by (rule spec_rules conjI impI | simp add: query_defs)+

text \<open>
  C4. \<^verbatim>\<open>getExtract\<close> returns an extraction function for each of the four
  extensions; and when \<^verbatim>\<open>archive.extract\<close> is \<^verbatim>\<open>null\<close>, \<^verbatim>\<open>download\<close> takes the
  raw-binary path: it never calls an extractor, never downloads to a temporary archive
  and never copies, and a successful run downloads once, to the destination.
\<close>

theorem C4_extraction_totality:
  "getExtract k \<noteq> None \<and>
   (extract_op (archive rc) = None \<longrightarrow> download e rc w = (r, w') \<longrightarrow>
      list_all raw_binary_call (calls_since w w') \<and>
      (\<forall>p. r = Inr p \<longrightarrow> length (dest_downloads (events_since w w')) = 1))"
proof -
  have "getExtract k \<noteq> None" by (cases k) simp_all
  moreover have "list_all raw_binary_call (calls_since w w') \<and>
      (\<forall>p. r = Inr p \<longrightarrow> length (dest_downloads (events_since w w')) = 1)"
    if "extract_op (archive rc) = None" "download e rc w = (r, w')"
    using specD(1)[OF download_raw_path_spec[OF that(1)] that(2)] by (simp add: calls_since_def)
  ultimately show ?thesis by blast
qed

theorem C4_witness:
  "getExtract Zip \<noteq> None \<and> extract_op (archive rc_binary) = None \<and>
   fst (download env0 rc_binary w0) = Inr ''/cache/foo/1.2.0/x64'' \<and>
   list_all raw_binary_call (calls_since w0 (snd (download env0 rc_binary w0)))"
proof -
  have h1: "extract_op (archive rc_binary) = None" by (simp add: rc_binary_def)
  have h2: "fst (download env0 rc_binary w0) = Inr ''/cache/foo/1.2.0/x64''" by code_simp
  have h3: "download env0 rc_binary w0 =
      (fst (download env0 rc_binary w0), snd (download env0 rc_binary w0))" by simp
  from C4_extraction_totality[of Zip rc_binary env0 w0] h1 h2 h3 show ?thesis by blast
qed

subsection \<open>C2: the fixed directory never touches the cache, the cached install always does\<close>

lemma download_container_no_cache_spec:
  "inContainer e \<Longrightarrow>
   spec e (download e rc) (\<lambda>r evs. \<not> list_ex is_CacheDir (map fst evs) \<and>
      (\<forall>m. fold (cache_step e) evs m = m))"
  unfolding download_def Let_def
  by (rule spec_rules conjI impI | simp add: query_defs)+

lemma download_cached_registers_spec:
  "\<not> inContainer e \<Longrightarrow>
   spec e (download e rc) (\<lambda>r evs. \<forall>p. r = Inr p \<longrightarrow>
      registered_last (name (tool rc)) (version (tool rc)) (arch (tool rc)) p evs \<and>
      deletions_last evs \<and>
      (\<forall>m. fold (cache_step e) evs m
              (name (tool rc), cache_version e (version (tool rc)), arch (tool rc)) = Some p))"
  unfolding download_def Let_def
  by (rule spec_rules conjI impI | simp add: query_defs registered_last_def)+

text \<open>
  C2. Inside a container (the fixed-directory install) \<^verbatim>\<open>download\<close> never calls
  \<^verbatim>\<open>tc.cacheDir\<close> and leaves the tool cache as it was, so a lookup that missed before
  the run misses after it. Outside a container (the cached install) a successful
  \<^verbatim>\<open>download\<close> has registered the identity (name, version, architecture) with the
  directory it returns, and this one registration is the final step before the
  cleanup: no deletion and no other registration comes before it, and after it come
  only the deletions of the temporaries, all of which succeed.
\<close>

theorem C2_placement_exclusivity:
  assumes "download e rc w = (r, w')"
  shows "(inContainer e \<longrightarrow>
            \<not> list_ex is_CacheDir (calls_since w w') \<and> cache w' = cache w) \<and>
         (\<not> inContainer e \<longrightarrow> (\<forall>p. r = Inr p \<longrightarrow>
            registered_last (name (tool rc)) (version (tool rc)) (arch (tool rc)) p
              (events_since w w') \<and>
            deletions_last (events_since w w') \<and>
            cache w' (name (tool rc), cache_version e (version (tool rc)), arch (tool rc))
              = Some p))"
proof (intro conjI impI)
  assume c: "inContainer e"
  from specD(1)[OF download_container_no_cache_spec[OF c] assms]
  show "\<not> list_ex is_CacheDir (calls_since w w')" by (simp add: calls_since_def)
  from specD(1)[OF download_container_no_cache_spec[OF c] assms]
    specD(2)[OF download_container_no_cache_spec[OF c] assms]
  show "cache w' = cache w" by simp
next
  assume c: "\<not> inContainer e"
  from specD(1)[OF download_cached_registers_spec[OF c] assms]
    specD(2)[OF download_cached_registers_spec[OF c] assms]
  show "\<forall>p. r = Inr p \<longrightarrow>
            registered_last (name (tool rc)) (version (tool rc)) (arch (tool rc)) p
              (events_since w w') \<and>
            deletions_last (events_since w w') \<and>
            cache w' (name (tool rc), cache_version e (version (tool rc)), arch (tool rc))
              = Some p"
    by simp
qed

theorem C2_witness:
  "\<not> list_ex is_CacheDir (calls_since w0 (snd (download env_container rc_archive w0))) \<and>
   cache (snd (download env_container rc_archive w0)) = cache w0 \<and>
   fst (download env_container rc_archive w0) = Inr ''/home/u/.local/bin/foo'' \<and>
   fst (download env0 rc_archive w0) = Inr ''/cache/foo/1.2.0/x64'' \<and>
   cache (snd (download env0 rc_archive w0)) (''foo'', ''1.2.0'', ''x64'') = Some ''/cache/foo/1.2.0/x64''"
proof -
  have c1: "inContainer env_container" by code_simp
  have c2: "\<not> inContainer env0" by code_simp
  have r1: "fst (download env_container rc_archive w0) = Inr ''/home/u/.local/bin/foo''" by code_simp
  have r2: "fst (download env0 rc_archive w0) = Inr ''/cache/foo/1.2.0/x64''" by code_simp
  have d1: "download env_container rc_archive w0 =
      (fst (download env_container rc_archive w0), snd (download env_container rc_archive w0))" by simp
  have d2: "download env0 rc_archive w0 =
      (Inr ''/cache/foo/1.2.0/x64'', snd (download env0 rc_archive w0))"
    using r2 by (metis prod.collapse)
  have n: "name (tool rc_archive) = ''foo''"
    "cache_version env0 (version (tool rc_archive)) = ''1.2.0''"
    "arch (tool rc_archive) = ''x64''" by code_simp+
  from C2_placement_exclusivity[OF d1] C2_placement_exclusivity[OF d2] c1 c2 r1 r2 n
  show ?thesis by simp
qed

subsection \<open>C3: the cache lookup comes first, and a second call only looks up\<close>

lemma findOrDownload_hit:
  assumes "cache_lookup e w (name (tool rc)) (version (tool rc)) (arch (tool rc)) = d" "d \<noteq> []"
    and "findOrDownload e rc w = (r, w')"
  shows "events_since w w' = [(Find (name (tool rc)) (version (tool rc)) (arch (tool rc)),
            case r of Inl err \<Rightarrow> Threw err | Inr p \<Rightarrow> Gave d)]"
    and "throws e w (Find (name (tool rc)) (version (tool rc)) (arch (tool rc))) = None
         \<Longrightarrow> r = Inr d"
    and "cache w' = cache w"
  using assms
  by (auto simp: findOrDownload_def bindE_def tc_find_def invoke_def returnE_def Let_def
      events_since_def split: option.splits)

lemma findOrDownload_first_spec:
  "spec e (findOrDownload e rc) (\<lambda>r evs.
      take 1 (map fst evs) = [Find (name (tool rc)) (version (tool rc)) (arch (tool rc))])"
  unfolding findOrDownload_def download_def Let_def
  by (rule spec_rules conjI impI | simp add: query_defs)+

lemma cache_lookup_explicit:
  assumes "semver_clean e v = Some c"
  shows "cache_lookup e w n v a = (case cache w (n, c, a) of None \<Rightarrow> [] | Some d \<Rightarrow> d)"
    and "cache_version e v = c"
  using assms by (simp_all add: cache_lookup_def find_version_def cache_version_def)

lemma findOrDownload_registers:
  assumes "\<not> inContainer e" "findOrDownload e rc w = (Inr p, w')" "p \<noteq> []"
    and "semver_clean e (version (tool rc)) = Some c"
  shows "cache_lookup e w' (name (tool rc)) (version (tool rc)) (arch (tool rc)) = p"
proof -
  let ?k = "(name (tool rc), c, arch (tool rc))"
  let ?c = "Find (name (tool rc)) (version (tool rc)) (arch (tool rc))"
  let ?d = "cache_lookup e w (name (tool rc)) (version (tool rc)) (arch (tool rc))"
  let ?w1 = "w\<lparr>trace := trace w @ [(?c, Gave ?d)]\<rparr>"
  note look = cache_lookup_explicit[OF assms(4)]
  from assms(2) have ok: "throws e w ?c = None"
    by (auto simp: findOrDownload_def bindE_def tc_find_def invoke_def Let_def
        split: option.splits)
  then have f: "tc_find e (name (tool rc)) (version (tool rc)) (arch (tool rc)) w = (Inr ?d, ?w1)"
    by (simp add: tc_find_def invoke_def Let_def)
  have "cache w' ?k = Some p"
  proof (cases "?d = []")
    case False
    with assms(2) f have "returnE ?d ?w1 = (Inr p, w')"
      by (simp add: findOrDownload_def bindE_def)
    then have "?d = p" "cache w' = cache w"
      unfolding returnE_def by auto
    with assms(3) show ?thesis unfolding look(1) by (auto split: option.splits)
  next
    case True
    with assms(2) f have dl: "download e rc ?w1 = (Inr p, w')"
      by (simp add: findOrDownload_def bindE_def)
    from specD(1)[OF download_cached_registers_spec[OF assms(1)] dl]
      specD(2)[OF download_cached_registers_spec[OF assms(1)] dl]
    show ?thesis by (simp add: look(2))
  qed
  then show ?thesis by (simp add: look(1))
qed

text \<open>
  C3, as the code has it. \<^verbatim>\<open>findOrDownload\<close> starts with the cache lookup
  \<^verbatim>\<open>tc.find\<close>. When the lookup finds a directory for the identity, it is the only
  call, so no network is touched, and that directory is returned (unless the lookup
  itself throws). Outside a container, when the version is one that \<^verbatim>\<open>semver.clean\<close>
  accepts, a call that returned a path is followed by a second call that makes the
  lookup only and returns the same path.
\<close>

theorem C3_lookup_first_and_idempotent:
  assumes "findOrDownload e rc w = (r, w')"
  shows "take 1 (calls_since w w') = [Find (name (tool rc)) (version (tool rc)) (arch (tool rc))] \<and>
    (\<forall>d. cache_lookup e w (name (tool rc)) (version (tool rc)) (arch (tool rc)) = d \<and> d \<noteq> [] \<longrightarrow>
       calls_since w w' = [Find (name (tool rc)) (version (tool rc)) (arch (tool rc))] \<and>
       \<not> list_ex is_network (calls_since w w') \<and>
       (throws e w (Find (name (tool rc)) (version (tool rc)) (arch (tool rc))) = None
          \<longrightarrow> r = Inr d)) \<and>
    (\<forall>p r2 w2. \<not> inContainer e \<and> semver_clean e (version (tool rc)) \<noteq> None \<and>
         r = Inr p \<and> p \<noteq> [] \<and> findOrDownload e rc w' = (r2, w2) \<longrightarrow>
       calls_since w' w2 = [Find (name (tool rc)) (version (tool rc)) (arch (tool rc))] \<and>
       \<not> list_ex is_network (calls_since w' w2) \<and>
       (throws e w' (Find (name (tool rc)) (version (tool rc)) (arch (tool rc))) = None
          \<longrightarrow> r2 = Inr p))"
proof (intro conjI allI impI)
  show "take 1 (calls_since w w') = [Find (name (tool rc)) (version (tool rc)) (arch (tool rc))]"
    using specD(1)[OF findOrDownload_first_spec assms] by (simp add: calls_since_def)
next
  fix d
  assume h: "cache_lookup e w (name (tool rc)) (version (tool rc)) (arch (tool rc)) = d \<and> d \<noteq> []"
  then have c: "cache_lookup e w (name (tool rc)) (version (tool rc)) (arch (tool rc)) = d"
    and d: "d \<noteq> []" by simp_all
  show "calls_since w w' = [Find (name (tool rc)) (version (tool rc)) (arch (tool rc))]"
    using findOrDownload_hit(1)[OF c d assms] by (simp add: calls_since_def)
  then show "\<not> list_ex is_network (calls_since w w')" by simp
  show "r = Inr d"
    if "throws e w (Find (name (tool rc)) (version (tool rc)) (arch (tool rc))) = None"
    using findOrDownload_hit(2)[OF c d assms that] .
next
  fix p r2 w2
  assume h: "\<not> inContainer e \<and> semver_clean e (version (tool rc)) \<noteq> None \<and>
         r = Inr p \<and> p \<noteq> [] \<and> findOrDownload e rc w' = (r2, w2)"
  then have first: "findOrDownload e rc w = (Inr p, w')" and nc: "\<not> inContainer e"
    and p: "p \<noteq> []" and second: "findOrDownload e rc w' = (r2, w2)"
    using assms by simp_all
  from h obtain c where ex: "semver_clean e (version (tool rc)) = Some c" by auto
  have c: "cache_lookup e w' (name (tool rc)) (version (tool rc)) (arch (tool rc)) = p"
    by (rule findOrDownload_registers[OF nc first p ex])
  show "calls_since w' w2 = [Find (name (tool rc)) (version (tool rc)) (arch (tool rc))]"
    using findOrDownload_hit(1)[OF c p second] by (simp add: calls_since_def)
  then show "\<not> list_ex is_network (calls_since w' w2)" by simp
  show "r2 = Inr p"
    if "throws e w' (Find (name (tool rc)) (version (tool rc)) (arch (tool rc))) = None"
    using findOrDownload_hit(2)[OF c p second that] .
qed

text \<open>
  C3 as stated fails: under the version \<^verbatim>\<open>latest\<close>, which is no semantic version,
  the lookup of the second call misses although the first call registered the
  directory, and the second call downloads, extracts and registers again.
\<close>

theorem C3_counterexample:
  "\<not> inContainer env0 \<and>
   fst (findOrDownload env0 rc_latest w0) = Inr ''/cache/foo/latest/x64'' \<and>
   cache w_latest (''foo'', ''latest'', ''x64'') = Some ''/cache/foo/latest/x64'' \<and>
   fst (findOrDownload env0 rc_latest w_latest) = Inr ''/cache/foo/latest/x64'' \<and>
   events_since w_latest (snd (findOrDownload env0 rc_latest w_latest)) =
     [(Find ''foo'' ''latest'' ''x64'', Gave []),
      (DownloadTool ''https://x/foo.tgz'' None None None, Gave ''/tmp/dl''),
      (ExtractCall extractTar ''/tmp/dl'' ''/home/u/tmp/r1'', Gave ''/home/u/tmp/r1''),
      (CacheDir ''/home/u/tmp/r1/foo-1.2.0'' ''foo'' ''latest'' ''x64'',
         Gave ''/cache/foo/latest/x64''),
      (RmSync ''/home/u/tmp/r1'', Done),
      (RmSync ''/tmp/dl'', Done)] \<and>
   list_ex is_network (calls_since w_latest (snd (findOrDownload env0 rc_latest w_latest)))"
  by code_simp

theorem C3_witness:
  "fst (findOrDownload env0 rc_archive w0) = Inr ''/cache/foo/1.2.0/x64'' \<and>
   list_ex is_network (calls_since w0 w1) \<and>
   fst (findOrDownload env0 rc_archive w1) = Inr ''/cache/foo/1.2.0/x64'' \<and>
   calls_since w1 (snd (findOrDownload env0 rc_archive w1)) = [Find ''foo'' ''1.2.0'' ''x64''] \<and>
   \<not> list_ex is_network (calls_since w1 (snd (findOrDownload env0 rc_archive w1)))"
proof -
  have r1: "fst (findOrDownload env0 rc_archive w0) = Inr ''/cache/foo/1.2.0/x64''" by code_simp
  have n1: "list_ex is_network (calls_since w0 w1)" by code_simp
  have d1: "findOrDownload env0 rc_archive w0 = (Inr ''/cache/foo/1.2.0/x64'', w1)"
    using r1 unfolding w1_def by (metis prod.collapse)
  have nc: "\<not> inContainer env0" by code_simp
  have ex: "semver_clean env0 (version (tool rc_archive)) \<noteq> None" by code_simp
  have ok: "throws env0 w1 (Find ''foo'' ''1.2.0'' ''x64'') = None" by (simp add: env0_def)
  have d2: "findOrDownload env0 rc_archive w1 =
      (fst (findOrDownload env0 rc_archive w1), snd (findOrDownload env0 rc_archive w1))" by simp
  have n: "name (tool rc_archive) = ''foo''" "version (tool rc_archive) = ''1.2.0''"
    "arch (tool rc_archive) = ''x64''" by (simp_all add: rc_archive_def)
  from C3_lookup_first_and_idempotent[OF d1] nc ex d2 ok n
  have "calls_since w1 (snd (findOrDownload env0 rc_archive w1)) = [Find ''foo'' ''1.2.0'' ''x64''] \<and>
       \<not> list_ex is_network (calls_since w1 (snd (findOrDownload env0 rc_archive w1))) \<and>
       fst (findOrDownload env0 rc_archive w1) = Inr ''/cache/foo/1.2.0/x64''"
    by (metis list.distinct(1) prod.collapse)
  with r1 n1 show ?thesis by simp
qed

subsection \<open>C9: version and architecture in the fixed directory\<close>

lemma download_ignores_version_in_container:
  "inContainer e \<Longrightarrow>
   download e (rc\<lparr>tool := (tool rc)\<lparr>version := ver, arch := ar\<rparr>\<rparr>) = download e rc"
  by (simp add: download_def cong: option.case_cong if_cong)

lemma download_container_result_spec:
  "inContainer e \<Longrightarrow>
   spec e (download e rc) (\<lambda>r evs.
      list_all (\<lambda>t. t = path_join [homedir e, ''.local'', ''bin''])
        (install_targets (map fst evs)) \<and>
      (\<forall>p. r = Inr p \<longrightarrow>
         p = path_join [path_join [homedir e, ''.local'', ''bin''], name (tool rc)]))"
  unfolding download_def Let_def
  by (rule spec_rules conjI impI | simp add: query_defs)+

text \<open>
  Inside a container the version and the architecture play no part in
  \<^verbatim>\<open>download\<close>: changing them changes neither the result nor any effect. In every
  run, whatever its outcome, the only place the download or the copy is aimed at is
  \<^verbatim>\<open>~/.local/bin\<close>; and whenever a run returns a path, it is the tool name below
  \<^verbatim>\<open>~/.local/bin\<close>.
\<close>

lemma download_container_ignores_version_and_arch:
  assumes "inContainer e"
  shows "download e (rc\<lparr>tool := (tool rc)\<lparr>version := ver, arch := ar\<rparr>\<rparr>) w = download e rc w \<and>
    (\<forall>r w'. download e rc w = (r, w') \<longrightarrow>
       list_all (\<lambda>t. t = path_join [homedir e, ''.local'', ''bin''])
         (install_targets (calls_since w w')) \<and>
       (\<forall>p. r = Inr p \<longrightarrow>
          p = path_join [path_join [homedir e, ''.local'', ''bin''], name (tool rc)]))"
proof (intro conjI allI impI)
  show "download e (rc\<lparr>tool := (tool rc)\<lparr>version := ver, arch := ar\<rparr>\<rparr>) w = download e rc w"
    by (simp add: download_ignores_version_in_container[OF assms])
next
  fix r w'
  assume d: "download e rc w = (r, w')"
  from specD(1)[OF download_container_result_spec[OF assms] d]
  show "list_all (\<lambda>t. t = path_join [homedir e, ''.local'', ''bin''])
         (install_targets (calls_since w w'))"
    by (simp add: calls_since_def)
  fix p
  assume r: "r = Inr p"
  from specD(1)[OF download_container_result_spec[OF assms] d] r
  show "p = path_join [path_join [homedir e, ''.local'', ''bin''], name (tool rc)]"
    by simp
qed


subsection \<open>C8: the release folder\<close>

lemma download_release_folder_spec:
  assumes x: "extract_op (archive rc) = Some x"
  shows "spec e (download e rc) (\<lambda>r evs. \<forall>p. r = Inr p \<longrightarrow>
      (\<exists>root. extraction_roots evs = [root] \<and>
         (root \<noteq> [] \<longrightarrow> install_sources (map fst evs) =
            [case subdir (archive rc) of None \<Rightarrow> root | Some s \<Rightarrow> path_join [root, s]])))"
proof (cases "subdir (archive rc)")
  case None
  show ?thesis
    unfolding download_def Let_def
    by (rule spec_rules conjI impI | simp add: query_defs x None)+
next
  case (Some s)
  show ?thesis
    unfolding download_def Let_def
    by (rule spec_rules conjI impI | simp add: query_defs x Some path_join_empty_seg)+
qed

text \<open>
  C8. In a successful acquisition with extraction, the directory handed to
  \<^verbatim>\<open>tc.cacheDir\<close> or \<^verbatim>\<open>fs.cpSync\<close> is the directory the extractor returned joined with
  \<^verbatim>\<open>subdir\<close> when that is present, and the returned directory itself when it is absent.
  (An empty \<^verbatim>\<open>subdir\<close> is falsy in the source and joins to the same path.)
\<close>

theorem C8_release_folder:
  assumes "download e rc w = (Inr p, w')" and "extract_op (archive rc) = Some x"
  shows "\<exists>root. extraction_roots (events_since w w') = [root] \<and>
         (root \<noteq> [] \<longrightarrow> install_sources (calls_since w w') =
            [case subdir (archive rc) of None \<Rightarrow> root | Some s \<Rightarrow> path_join [root, s]])"
  using specD(1)[OF download_release_folder_spec[OF assms(2)] assms(1)] by (simp add: calls_since_def)

theorem C8_witness:
  "extract_op (archive rc_archive) = Some extractTar \<and>
   fst (download env0 rc_archive w0) = Inr ''/cache/foo/1.2.0/x64'' \<and>
   extraction_roots (events_since w0 (snd (download env0 rc_archive w0))) = [''/home/u/tmp/r1''] \<and>
   install_sources (calls_since w0 (snd (download env0 rc_archive w0))) =
     [''/home/u/tmp/r1/foo-1.2.0'']"
proof -
  have h: "extract_op (archive rc_archive) = Some extractTar" by (simp add: rc_archive_def)
  have r: "fst (download env0 rc_archive w0) = Inr ''/cache/foo/1.2.0/x64''" by code_simp
  have d: "download env0 rc_archive w0 =
      (Inr ''/cache/foo/1.2.0/x64'', snd (download env0 rc_archive w0))"
    using r by (metis prod.collapse)
  have x: "extraction_roots (events_since w0 (snd (download env0 rc_archive w0))) =
      [''/home/u/tmp/r1'']" by code_simp
  from C8_release_folder[OF d h] x
  have "install_sources (calls_since w0 (snd (download env0 rc_archive w0))) =
      [case subdir (archive rc_archive) of None \<Rightarrow> ''/home/u/tmp/r1''
       | Some s \<Rightarrow> path_join [''/home/u/tmp/r1'', s]]"
    by auto
  then have "install_sources (calls_since w0 (snd (download env0 rc_archive w0))) =
      [''/home/u/tmp/r1/foo-1.2.0'']"
    by (simp add: rc_archive_def path_join_def)
  with h r x show ?thesis by simp
qed

subsection \<open>C1: temporaries are deleted on success only\<close>

lemma download_cleanup_spec:
  "spec e (download e rc) (\<lambda>r evs. \<forall>p. r = Inr p \<longrightarrow>
      (extract_op (archive rc) \<noteq> None \<longrightarrow>
         removed evs = extract_dirs evs @ temp_downloads evs \<and>
         length (extract_dirs evs) = 1 \<and> length (temp_downloads evs) = 1) \<and>
      (extract_op (archive rc) = None \<and> \<not> inContainer e \<longrightarrow>
         (\<exists>tmpDir. removed evs = [tmpDir] \<and>
            dest_downloads evs = [path_join [tmpDir, name (tool rc)]])) \<and>
      (extract_op (archive rc) = None \<and> inContainer e \<longrightarrow> removed evs = []) \<and>
      deletions_last evs \<and> \<not> list_ex is_Threw (map snd evs))"
  unfolding download_def Let_def
  by (rule spec_rules conjI impI | simp add: query_defs)+

lemma download_removed_gone_spec:
  "spec e (download e rc) (\<lambda>r evs. \<forall>p. r = Inr p \<longrightarrow>
      (\<forall>fs. \<forall>t \<in> set (removed evs). t \<notin> set (fold files_step evs fs)))"
  unfolding download_def Let_def
  by (rule spec_rules conjI impI | simp add: query_defs under_self del: filter.simps)+

lemma download_failure_no_cleanup_spec:
  "spec e (download e rc) (\<lambda>r evs. \<forall>err. r = Inl err \<longrightarrow>
      stops_at_throw err evs \<and> deletions_last (butlast evs) \<and>
      (removed evs = [] \<or> is_RmSync (fst (last evs))))"
  unfolding download_def Let_def
  by (rule spec_rules conjI impI | simp add: query_defs)+

text \<open>
  C1, as the code has it. \<^verbatim>\<open>download\<close> deletes its temporaries only at the end of a
  successful acquisition: the extraction directory and then the downloaded archive on
  the extraction paths, the temporary root on the cached raw-binary path, nothing on the
  raw-binary path inside a container (which creates none). On success no call threw,
  the deletions are the last calls of the run, and the deleted paths no longer exist
  afterwards. When a call throws, the run ends with that call and with its error: no
  call follows the failure, so nothing is deleted because of it. The only deletions
  a failing run can contain are those of the final cleanup that succeeded before one
  of the final deletions itself threw.
\<close>

theorem C1_cleanup_only_on_success:
  assumes "download e rc w = (r, w')"
  shows "(\<forall>p. r = Inr p \<longrightarrow>
      (extract_op (archive rc) \<noteq> None \<longrightarrow>
         removed (events_since w w') =
           extract_dirs (events_since w w') @ temp_downloads (events_since w w') \<and>
         length (extract_dirs (events_since w w')) = 1 \<and>
         length (temp_downloads (events_since w w')) = 1) \<and>
      (extract_op (archive rc) = None \<and> \<not> inContainer e \<longrightarrow>
         (\<exists>tmpDir. removed (events_since w w') = [tmpDir] \<and>
            dest_downloads (events_since w w') = [path_join [tmpDir, name (tool rc)]])) \<and>
      (extract_op (archive rc) = None \<and> inContainer e \<longrightarrow> removed (events_since w w') = []) \<and>
      deletions_last (events_since w w') \<and>
      \<not> list_ex is_Threw (map snd (events_since w w')) \<and>
      (\<forall>t \<in> set (removed (events_since w w')). t \<notin> set (files w'))) \<and>
    (\<forall>err. r = Inl err \<longrightarrow>
      stops_at_throw err (events_since w w') \<and>
      deletions_last (butlast (events_since w w')) \<and>
      (removed (events_since w w') = [] \<or> is_RmSync (fst (last (events_since w w')))))"
  using specD(1)[OF download_cleanup_spec assms] specD(1)[OF download_removed_gone_spec assms]
    specD(3)[OF download_removed_gone_spec assms]
    specD(1)[OF download_failure_no_cleanup_spec assms]
  by simp

text \<open>
  C1 as stated fails: when the extractor throws, the downloaded archive still exists
  after \<^verbatim>\<open>download\<close> has thrown, and no deletion was attempted.
\<close>

theorem C1_counterexample:
  "fst (download env_corrupt rc_archive w0) = Inl (Error ''corrupt archive'') \<and>
   events_since w0 (snd (download env_corrupt rc_archive w0)) =
     [(DownloadTool ''https://x/foo.tgz'' None None None, Gave ''/tmp/dl''),
      (ExtractCall extractTar ''/tmp/dl'' ''/home/u/tmp/r1'', Threw (Error ''corrupt archive''))] \<and>
   ''/tmp/dl'' \<in> set (files (snd (download env_corrupt rc_archive w0))) \<and>
   removed (events_since w0 (snd (download env_corrupt rc_archive w0))) = []"
  by code_simp

theorem C1_witness:
  "fst (download env0 rc_archive w0) = Inr ''/cache/foo/1.2.0/x64'' \<and>
   removed (events_since w0 (snd (download env0 rc_archive w0))) = [''/home/u/tmp/r1'', ''/tmp/dl''] \<and>
   ''/home/u/tmp/r1'' \<notin> set (files (snd (download env0 rc_archive w0))) \<and>
   ''/tmp/dl'' \<notin> set (files (snd (download env0 rc_archive w0))) \<and>
   fst (download env_corrupt rc_archive w0) = Inl (Error ''corrupt archive'') \<and>
   stops_at_throw (Error ''corrupt archive'')
     (events_since w0 (snd (download env_corrupt rc_archive w0))) \<and>
   removed (events_since w0 (snd (download env_corrupt rc_archive w0))) = []"
proof -
  have r: "fst (download env0 rc_archive w0) = Inr ''/cache/foo/1.2.0/x64''" by code_simp
  have d: "download env0 rc_archive w0 =
      (Inr ''/cache/foo/1.2.0/x64'', snd (download env0 rc_archive w0))"
    using r by (metis prod.collapse)
  have x: "removed (events_since w0 (snd (download env0 rc_archive w0))) =
      [''/home/u/tmp/r1'', ''/tmp/dl'']" by code_simp
  have r2: "fst (download env_corrupt rc_archive w0) = Inl (Error ''corrupt archive'')"
    by code_simp
  have d2: "download env_corrupt rc_archive w0 =
      (Inl (Error ''corrupt archive''), snd (download env_corrupt rc_archive w0))"
    using r2 by (metis prod.collapse)
  have l: "\<not> is_RmSync (fst (last (events_since w0 (snd (download env_corrupt rc_archive w0)))))"
    by code_simp
  from C1_cleanup_only_on_success[OF d] x
  have a: "''/home/u/tmp/r1'' \<notin> set (files (snd (download env0 rc_archive w0))) \<and>
   ''/tmp/dl'' \<notin> set (files (snd (download env0 rc_archive w0)))"
    by simp
  from C1_cleanup_only_on_success[OF d2] l
  have b: "stops_at_throw (Error ''corrupt archive'')
     (events_since w0 (snd (download env_corrupt rc_archive w0))) \<and>
     removed (events_since w0 (snd (download env_corrupt rc_archive w0))) = []"
    by simp
  from r x a r2 b show ?thesis by simp
qed

subsection \<open>C7: errors pass through unchanged\<close>

lemma download_error_spec:
  "spec e (download e rc) (\<lambda>r evs. \<forall>err. r = Inl err \<longrightarrow> thrown_last err evs)"
  unfolding download_def Let_def
  by (rule spec_rules conjI impI | simp add: query_defs)+

lemma findOrDownload_error_spec:
  "spec e (findOrDownload e rc) (\<lambda>r evs. \<forall>err. r = Inl err \<longrightarrow> thrown_last err evs)"
  unfolding findOrDownload_def download_def Let_def
  by (rule spec_rules conjI impI | simp add: query_defs)+

lemma run_reports:
  assumes "mkReleaseConfig e (platform e) (process_arch e) = Inr rc"
    and "findOrDownload e rc w = (Inl err, w')"
  shows "run e w = core_setFailed err w'"
  using assms by (simp add: run_def bindE_def)

text \<open>
  C7, as the code has it. An error that leaves \<^verbatim>\<open>download\<close> or \<^verbatim>\<open>findOrDownload\<close>
  is the very error the last call threw, with no kind and no context added, and
  \<^verbatim>\<open>run\<close> hands exactly that error to \<^verbatim>\<open>core.setFailed\<close> and returns.
\<close>

theorem C7_errors_pass_unchanged:
  "(download e rc w = (Inl err, w') \<longrightarrow> thrown_last err (events_since w w')) \<and>
   (findOrDownload e rc w = (Inl err, w') \<longrightarrow>
      thrown_last err (events_since w w') \<and>
      (mkReleaseConfig e (platform e) (process_arch e) = Inr rc \<longrightarrow>
         run e w = core_setFailed err w' \<and>
         events_since w (run e w) = events_since w w' @ [(SetFailed err, Done)]))"
proof (intro conjI impI)
  assume "download e rc w = (Inl err, w')"
  from specD(1)[OF download_error_spec this] show "thrown_last err (events_since w w')" by simp
next
  assume f: "findOrDownload e rc w = (Inl err, w')"
  from specD(1)[OF findOrDownload_error_spec f] show "thrown_last err (events_since w w')" by simp
  assume m: "mkReleaseConfig e (platform e) (process_arch e) = Inr rc"
  show r: "run e w = core_setFailed err w'" by (rule run_reports[OF m f])
  from specD(4)[OF findOrDownload_error_spec f]
  have "length (trace w) \<le> length (trace w')" by (metis le_add1 length_append)
  then show "events_since w (run e w) = events_since w w' @ [(SetFailed err, Done)]"
    unfolding r core_setFailed_def by (simp add: events_since_def)
qed

text \<open>
  C7 as stated fails: the error \<^verbatim>\<open>run\<close> reports when the extractor throws is the
  extractor's own error, which names neither the tool, its version nor its architecture.
\<close>

theorem C7_counterexample:
  "mkReleaseConfig env_corrupt (platform env_corrupt) (process_arch env_corrupt) = Inr rc_archive \<and>
   fst (download env_corrupt rc_archive w0) = Inl (Error ''corrupt archive'') \<and>
   events_since w0 (run env_corrupt w0) =
     [(Find ''foo'' ''1.2.0'' ''x64'', Gave []),
      (DownloadTool ''https://x/foo.tgz'' None None None, Gave ''/tmp/dl''),
      (ExtractCall extractTar ''/tmp/dl'' ''/home/u/tmp/r1'', Threw (Error ''corrupt archive'')),
      (SetFailed (Error ''corrupt archive''), Done)] \<and>
   \<not> mentions (name (tool rc_archive)) ''corrupt archive'' \<and>
   \<not> mentions (version (tool rc_archive)) ''corrupt archive'' \<and>
   \<not> mentions (arch (tool rc_archive)) ''corrupt archive''"
  by code_simp

theorem C7_witness:
  "fst (download env_corrupt rc_archive w0) = Inl (Error ''corrupt archive'') \<and>
   thrown_last (Error ''corrupt archive'')
     (events_since w0 (snd (download env_corrupt rc_archive w0))) \<and>
   fst (findOrDownload env_corrupt rc_archive w0) = Inl (Error ''corrupt archive'') \<and>
   run env_corrupt w0 =
     core_setFailed (Error ''corrupt archive'') (snd (findOrDownload env_corrupt rc_archive w0))"
proof -
  have r: "fst (download env_corrupt rc_archive w0) = Inl (Error ''corrupt archive'')"
    by code_simp
  have d: "download env_corrupt rc_archive w0 =
      (Inl (Error ''corrupt archive''), snd (download env_corrupt rc_archive w0))"
    using r by (metis prod.collapse)
  have r2: "fst (findOrDownload env_corrupt rc_archive w0) = Inl (Error ''corrupt archive'')"
    by code_simp
  have d2: "findOrDownload env_corrupt rc_archive w0 =
      (Inl (Error ''corrupt archive''), snd (findOrDownload env_corrupt rc_archive w0))"
    using r2 by (metis prod.collapse)
  have m: "mkReleaseConfig env_corrupt (platform env_corrupt) (process_arch env_corrupt) =
      Inr rc_archive" by code_simp
  from C7_errors_pass_unchanged[where e=env_corrupt and rc=rc_archive and w=w0
      and err="Error ''corrupt archive''" and w'="snd (download env_corrupt rc_archive w0)"] d
  have a: "thrown_last (Error ''corrupt archive'')
     (events_since w0 (snd (download env_corrupt rc_archive w0)))" by blast
  from C7_errors_pass_unchanged[where e=env_corrupt and rc=rc_archive and w=w0
      and err="Error ''corrupt archive''"
      and w'="snd (findOrDownload env_corrupt rc_archive w0)"] d2 m
  have b: "run env_corrupt w0 =
     core_setFailed (Error ''corrupt archive'') (snd (findOrDownload env_corrupt rc_archive w0))"
    by blast
  from r a r2 b show ?thesis by simp
qed

subsection \<open>C5: the raw binary in the fixed directory\<close>

lemma download_fixed_dir_raw_spec:
  "inContainer e \<Longrightarrow> extract_op (archive rc) = None \<Longrightarrow>
   spec e (download e rc) (\<lambda>r evs. \<forall>p. r = Inr p \<longrightarrow>
      dest_downloads evs = [path_join [homedir e, ''.local'', ''bin'']] \<and>
      chmods evs = [(path_join [homedir e, ''.local'', ''bin''], ''755'')] \<and>
      cache_regs evs = [] \<and>
      p = path_join [path_join [homedir e, ''.local'', ''bin''], name (tool rc)])"
  unfolding download_def Let_def
  by (rule spec_rules conjI impI | simp add: query_defs)+

lemma download_part_001_fixed_dir_raw_spec:
  "inContainer e \<Longrightarrow> extract_op (archive rc) = None \<Longrightarrow>
   spec e (download_part_001 e rc) (\<lambda>r evs. \<forall>p. r = Inr p \<longrightarrow>
      p = path_join [path_join [homedir e, ''.local'', ''bin''], name (tool rc)] \<and>
      dest_downloads evs = [p] \<and> chmods evs = [(p, ''755'')] \<and>
      \<not> list_ex is_CacheDir (map fst evs) \<and> (\<forall>m. fold (cache_step e) evs m = m))"
  unfolding download_part_001_def Let_def
  by (rule spec_rules conjI impI | simp add: query_defs)+

lemma download_part_001_fixed_dir_raw:
  assumes "inContainer e" "extract_op (archive rc) = None"
    and "download_part_001 e rc w = (Inr p, w')"
  shows "p = path_join [path_join [homedir e, ''.local'', ''bin''], name (tool rc)] \<and>
      dest_downloads (events_since w w') = [p] \<and> chmods (events_since w w') = [(p, ''755'')] \<and>
      \<not> list_ex is_CacheDir (calls_since w w') \<and> cache w' = cache w"
  using specD(1)[OF download_part_001_fixed_dir_raw_spec[OF assms(1,2)] assms(3)]
    specD(2)[OF download_part_001_fixed_dir_raw_spec[OF assms(1,2)] assms(3)]
  by (simp add: calls_since_def)

lemma download_fixed_dir_raw:
  assumes "inContainer e" "extract_op (archive rc) = None"
    and "download e rc w = (Inr p, w')"
  shows "dest_downloads (events_since w w') = [path_join [homedir e, ''.local'', ''bin'']] \<and>
      chmods (events_since w w') = [(path_join [homedir e, ''.local'', ''bin''], ''755'')] \<and>
      p = path_join [path_join [homedir e, ''.local'', ''bin''], name (tool rc)]"
  using specD(1)[OF download_fixed_dir_raw_spec[OF assms(1,2)] assms(3)] by simp

text \<open>
  C5. Inside a container, the raw-binary path of \<^verbatim>\<open>download\<close> in \<^verbatim>\<open>src/main.ts\<close>
  downloads to the directory \<^verbatim>\<open>~/.local/bin\<close> itself and marks that directory
  executable, but returns the tool name below it; the other revision of
  \<^verbatim>\<open>download\<close> downloads to the path it returns.
\<close>

theorem C5_main_ts_downloads_to_the_directory:
  "fst (download env_container rc_binary w0) = Inr ''/home/u/.local/bin/foo'' \<and>
   events_since w0 (snd (download env_container rc_binary w0)) =
     [(MkdirSync ''/home/u/.local/bin'', Done),
      (DownloadTool ''https://x/foo'' (Some ''/home/u/.local/bin'') None None,
         Gave ''/home/u/.local/bin''),
      (ChmodSync ''/home/u/.local/bin'' ''755'', Done)] \<and>
   fst (download_part_001 env_container rc_binary w0) = Inr ''/home/u/.local/bin/foo'' \<and>
   events_since w0 (snd (download_part_001 env_container rc_binary w0)) =
     [(MkdirSync ''/home/u/.local/bin'', Done),
      (DownloadTool ''https://x/foo'' (Some ''/home/u/.local/bin/foo'') None None,
         Gave ''/home/u/.local/bin/foo''),
      (ChmodSync ''/home/u/.local/bin/foo'' ''755'', Done)]"
  by code_simp

subsection \<open>C6: the raw binary in the tool cache\<close>

lemma download_cached_raw_spec:
  "\<not> inContainer e \<Longrightarrow> extract_op (archive rc) = None \<Longrightarrow>
   spec e (download e rc) (\<lambda>r evs. \<forall>p. r = Inr p \<longrightarrow>
      (\<exists>rnd. dest_downloads evs = [path_join [path_join [homedir e, ''tmp'', rnd], name (tool rc)]] \<and>
         chmods evs = [(path_join [path_join [homedir e, ''tmp'', rnd], name (tool rc)], ''755'')] \<and>
         cache_regs evs = [(path_join [path_join [homedir e, ''tmp'', rnd], name (tool rc)],
             name (tool rc), version (tool rc), arch (tool rc), p)] \<and>
         removed evs = [path_join [homedir e, ''tmp'', rnd]]))"
  unfolding download_def Let_def
  by (rule spec_rules conjI impI | simp add: query_defs | blast)+

lemma download_part_001_cached_raw_spec:
  "\<not> inContainer e \<Longrightarrow> extract_op (archive rc) = None \<Longrightarrow>
   spec e (download_part_001 e rc) (\<lambda>r evs. \<forall>p. r = Inr p \<longrightarrow>
      (\<exists>rnd. dest_downloads evs = [path_join [path_join [homedir e, ''tmp'', rnd], name (tool rc)]] \<and>
         chmods evs = [(path_join [path_join [homedir e, ''tmp'', rnd], name (tool rc)], ''755'')] \<and>
         cache_regs evs = [(path_join [homedir e, ''tmp'', rnd],
             name (tool rc), version (tool rc), arch (tool rc), p)] \<and>
         removed evs = [path_join [homedir e, ''tmp'', rnd]] \<and>
         before_cleanup evs = Some (CacheDir (path_join [homedir e, ''tmp'', rnd])
             (name (tool rc)) (version (tool rc)) (arch (tool rc)), Gave p)))"
  unfolding download_part_001_def Let_def
  by (rule spec_rules conjI impI | simp add: query_defs | blast)+

lemma download_part_001_cached_raw:
  assumes "\<not> inContainer e" "extract_op (archive rc) = None"
    and "download_part_001 e rc w = (Inr p, w')"
  shows "\<exists>rnd. dest_downloads (events_since w w') =
           [path_join [path_join [homedir e, ''tmp'', rnd], name (tool rc)]] \<and>
         chmods (events_since w w') =
           [(path_join [path_join [homedir e, ''tmp'', rnd], name (tool rc)], ''755'')] \<and>
         cache_regs (events_since w w') = [(path_join [homedir e, ''tmp'', rnd],
             name (tool rc), version (tool rc), arch (tool rc), p)] \<and>
         removed (events_since w w') = [path_join [homedir e, ''tmp'', rnd]] \<and>
         before_cleanup (events_since w w') = Some (CacheDir (path_join [homedir e, ''tmp'', rnd])
             (name (tool rc)) (version (tool rc)) (arch (tool rc)), Gave p)"
  using specD(1)[OF download_part_001_cached_raw_spec[OF assms(1,2)] assms(3)] by simp

lemma download_cached_raw:
  assumes "\<not> inContainer e" "extract_op (archive rc) = None"
    and "download e rc w = (Inr p, w')"
  shows "\<exists>rnd. dest_downloads (events_since w w') =
           [path_join [path_join [homedir e, ''tmp'', rnd], name (tool rc)]] \<and>
         cache_regs (events_since w w') =
           [(path_join [path_join [homedir e, ''tmp'', rnd], name (tool rc)],
             name (tool rc), version (tool rc), arch (tool rc), p)] \<and>
         removed (events_since w w') = [path_join [homedir e, ''tmp'', rnd]]"
  using specD(1)[OF download_cached_raw_spec[OF assms(1,2)] assms(3)] by auto

text \<open>
  C6. Outside a container, the raw-binary path of \<^verbatim>\<open>download\<close> in
  \<^verbatim>\<open>src/main.ts\<close> hands the downloaded file, not the temporary root that holds
  it, to \<^verbatim>\<open>tc.cacheDir\<close>; the other revision of \<^verbatim>\<open>download\<close> registers the root.
\<close>

theorem C6_main_ts_registers_the_file:
  "fst (download env0 rc_binary w0) = Inr ''/cache/foo/1.2.0/x64'' \<and>
   events_since w0 (snd (download env0 rc_binary w0)) =
     [(DownloadTool ''https://x/foo'' (Some ''/home/u/tmp/r0/foo'') None None,
         Gave ''/home/u/tmp/r0/foo''),
      (ChmodSync ''/home/u/tmp/r0/foo'' ''755'', Done),
      (CacheDir ''/home/u/tmp/r0/foo'' ''foo'' ''1.2.0'' ''x64'', Gave ''/cache/foo/1.2.0/x64''),
      (RmSync ''/home/u/tmp/r0'', Done)] \<and>
   events_since w0 (snd (download_part_001 env0 rc_binary w0)) =
     [(DownloadTool ''https://x/foo'' (Some ''/home/u/tmp/r0/foo'') None None,
         Gave ''/home/u/tmp/r0/foo''),
      (ChmodSync ''/home/u/tmp/r0/foo'' ''755'', Done),
      (CacheDir ''/home/u/tmp/r0'' ''foo'' ''1.2.0'' ''x64'', Gave ''/cache/foo/1.2.0/x64''),
      (RmSync ''/home/u/tmp/r0'', Done)]"
  by code_simp

end
